theory Spec2Isabelle
  imports Complex_Main "HOL-Library.Char_ord" "HOL-Library.Log_Nat"
begin

section \<open>JavaScript numbers\<close>

text \<open>
  A JavaScript number is an IEEE 754 binary64 value: a finite value, \<open>NaN\<close> or one of the
  two infinities. A finite value is a rational number here; \<open>round64\<close> rounds the exact
  result of an operation to the nearest binary64 value, ties to even, and to an infinity
  when the rounded value reaches \<open>2^1024\<close>. The two zeros are not told apart: no operation of the code
  observes the sign of a zero.
\<close>

datatype number = Finite rat | NaN | PosInfinity | NegInfinity

text \<open>For \<open>0 < r\<close>, \<open>ilog2 r\<close> is the exponent \<open>E\<close> with \<open>2^E \<le> r < 2^(E+1)\<close>.\<close>

definition ilog2 :: "rat \<Rightarrow> int" where
  "ilog2 r =
     (let d = bitlen (fst (quotient_of r)) - bitlen (snd (quotient_of r))
      in if 2 powi d \<le> r then d else d - 1)"

definition roundHalfEven :: "rat \<Rightarrow> int" where
  "roundHalfEven q =
     (let f = \<lfloor>q\<rfloor>; d = q - of_int f
      in if d < 1 / 2 then f else if 1 / 2 < d then f + 1 else if even f then f else f + 1)"

text \<open>A binary64 value is a multiple of \<open>2^e\<close>, where \<open>e\<close> is 52 below the exponent of the
  value and at least \<open>-1074\<close>.\<close>

definition round64 :: "rat \<Rightarrow> number" where
  "round64 x =
     (if x = 0 then Finite 0
      else
        (let e = max (- 1074) (ilog2 \<bar>x\<bar> - 52);
             y = of_int (roundHalfEven (\<bar>x\<bar> / 2 powi e)) * 2 powi e
         in if 1024 \<le> ilog2 y then (if 0 < x then PosInfinity else NegInfinity)
            else Finite (if 0 < x then y else - y)))"

text \<open>The operators \<open>+\<close>, \<open>-\<close>, \<open>*\<close>, \<open>/\<close>, \<open><=\<close>, and \<open>Math.max\<close>, \<open>Math.ceil\<close>.\<close>

definition jsNeg :: "number \<Rightarrow> number" where
  "jsNeg a =
     (case a of Finite x \<Rightarrow> Finite (- x) | NaN \<Rightarrow> NaN | PosInfinity \<Rightarrow> NegInfinity
      | NegInfinity \<Rightarrow> PosInfinity)"

definition jsAdd :: "number \<Rightarrow> number \<Rightarrow> number" where
  "jsAdd a b =
     (case (a, b) of
        (NaN, _) \<Rightarrow> NaN
      | (_, NaN) \<Rightarrow> NaN
      | (Finite x, Finite y) \<Rightarrow> round64 (x + y)
      | (PosInfinity, NegInfinity) \<Rightarrow> NaN
      | (NegInfinity, PosInfinity) \<Rightarrow> NaN
      | (PosInfinity, _) \<Rightarrow> PosInfinity
      | (NegInfinity, _) \<Rightarrow> NegInfinity
      | (_, PosInfinity) \<Rightarrow> PosInfinity
      | (_, NegInfinity) \<Rightarrow> NegInfinity)"

definition jsSub :: "number \<Rightarrow> number \<Rightarrow> number" where
  "jsSub a b = jsAdd a (jsNeg b)"

text \<open>The sign of a number that is not \<open>NaN\<close>: \<open>-1\<close>, \<open>0\<close> or \<open>1\<close>.\<close>

definition signOf :: "number \<Rightarrow> int" where
  "signOf a =
     (case a of Finite x \<Rightarrow> (if x < 0 then - 1 else if x = 0 then 0 else 1)
      | PosInfinity \<Rightarrow> 1 | NegInfinity \<Rightarrow> - 1 | NaN \<Rightarrow> 0)"

definition infinityOfSign :: "int \<Rightarrow> number" where
  "infinityOfSign s = (if s < 0 then NegInfinity else PosInfinity)"

definition jsMul :: "number \<Rightarrow> number \<Rightarrow> number" where
  "jsMul a b =
     (case (a, b) of
        (NaN, _) \<Rightarrow> NaN
      | (_, NaN) \<Rightarrow> NaN
      | (Finite x, Finite y) \<Rightarrow> round64 (x * y)
      | _ \<Rightarrow> (if signOf a * signOf b = 0 then NaN else infinityOfSign (signOf a * signOf b)))"

definition jsDiv :: "number \<Rightarrow> number \<Rightarrow> number" where
  "jsDiv a b =
     (case (a, b) of
        (NaN, _) \<Rightarrow> NaN
      | (_, NaN) \<Rightarrow> NaN
      | (Finite x, Finite y) \<Rightarrow>
          (if y = 0 then (if x = 0 then NaN else infinityOfSign (signOf a)) else round64 (x / y))
      | (Finite x, _) \<Rightarrow> Finite 0
      | (_, Finite y) \<Rightarrow> infinityOfSign (signOf a * (if y < 0 then - 1 else 1))
      | _ \<Rightarrow> NaN)"

definition jsCeil :: "number \<Rightarrow> number" where
  "jsCeil a = (case a of Finite x \<Rightarrow> Finite (of_int \<lceil>x\<rceil>) | _ \<Rightarrow> a)"

definition jsLe :: "number \<Rightarrow> number \<Rightarrow> bool" where
  "jsLe a b =
     (case (a, b) of
        (NaN, _) \<Rightarrow> False
      | (_, NaN) \<Rightarrow> False
      | (Finite x, Finite y) \<Rightarrow> x \<le> y
      | (NegInfinity, _) \<Rightarrow> True
      | (_, PosInfinity) \<Rightarrow> True
      | _ \<Rightarrow> False)"

definition jsMax :: "number \<Rightarrow> number \<Rightarrow> number" where
  "jsMax a b =
     (case (a, b) of
        (NaN, _) \<Rightarrow> NaN
      | (_, NaN) \<Rightarrow> NaN
      | _ \<Rightarrow> (if jsLe a b then b else a))"

definition isFinite :: "number \<Rightarrow> bool" where
  "isFinite v = (case v of Finite _ \<Rightarrow> True | _ \<Rightarrow> False)"

definition isInteger :: "number \<Rightarrow> bool" where
  "isInteger v = (case v of Finite r \<Rightarrow> of_int \<lfloor>r\<rfloor> = r | _ \<Rightarrow> False)"

definition lessZero :: "number \<Rightarrow> bool" where
  "lessZero v = (case v of Finite r \<Rightarrow> r < 0 | NegInfinity \<Rightarrow> True | _ \<Rightarrow> False)"

section \<open>QBI: data model (qbi.ts)\<close>

text \<open>A JavaScript string is the list of its UTF-16 code units; \<open>str\<close> turns a literal of
  the theory into such a string.\<close>

type_synonym jsString = "nat list"

definition str :: "string \<Rightarrow> jsString" where
  "str w = map of_char w"

datatype prim = U8 | U16 | U32 | U64 | I8 | I16 | I32 | I64 | Bool

datatype QbiTypeRef =
    NoData "number option"
  | Prim prim
  | Bytes number
  | M256i
  | Array number QbiTypeRef
  | Struct "(jsString \<times> QbiTypeRef) list"

record CppLayout =
  size_of :: number
  align_of :: number

datatype error = RangeError

section \<open>Layout calculator (compiler/cpp-layout.ts)\<close>

text \<open>\<open>assertPositiveInt\<close>: throws unless the value is a finite integer that is not
  negative, and returns the value.\<close>

definition assertPositiveInt :: "number \<Rightarrow> error + number" where
  "assertPositiveInt v =
     (if \<not> isFinite v \<or> \<not> isInteger v \<or> lessZero v then Inl RangeError else Inr v)"

definition alignUp :: "number \<Rightarrow> number \<Rightarrow> number" where
  "alignUp v alignment =
     (if jsLe alignment (Finite 1) then v
      else jsMul (jsCeil (jsDiv v alignment)) alignment)"

definition primLayout :: "prim \<Rightarrow> CppLayout" where
  "primLayout p =
     (case p of
        Bool \<Rightarrow> \<lparr>size_of = Finite 1, align_of = Finite 1\<rparr>
      | U8 \<Rightarrow> \<lparr>size_of = Finite 1, align_of = Finite 1\<rparr>
      | I8 \<Rightarrow> \<lparr>size_of = Finite 1, align_of = Finite 1\<rparr>
      | U16 \<Rightarrow> \<lparr>size_of = Finite 2, align_of = Finite 2\<rparr>
      | I16 \<Rightarrow> \<lparr>size_of = Finite 2, align_of = Finite 2\<rparr>
      | U32 \<Rightarrow> \<lparr>size_of = Finite 4, align_of = Finite 4\<rparr>
      | I32 \<Rightarrow> \<lparr>size_of = Finite 4, align_of = Finite 4\<rparr>
      | U64 \<Rightarrow> \<lparr>size_of = Finite 8, align_of = Finite 8\<rparr>
      | I64 \<Rightarrow> \<lparr>size_of = Finite 8, align_of = Finite 8\<rparr>)"

text \<open>
  \<open>cppLayoutOf\<close>. The \<open>for\<close> loop of the \<open>struct\<close> case is \<open>layoutFields\<close>, which
  carries the loop variables \<open>offset\<close> and \<open>structAlign\<close>; an exception thrown for a
  field leaves the loop and the function.
\<close>

fun cppLayoutOf :: "QbiTypeRef \<Rightarrow> error + CppLayout"
  and layoutFields ::
    "(jsString \<times> QbiTypeRef) list \<Rightarrow> number \<Rightarrow> number \<Rightarrow> error + (number \<times> number)"
where
  "cppLayoutOf (NoData expectedSize) =
     Inr \<lparr>size_of = jsMax (Finite 1) (case expectedSize of None \<Rightarrow> Finite 1 | Some e \<Rightarrow> e),
          align_of = Finite 1\<rparr>"
| "cppLayoutOf (Prim p) = Inr (primLayout p)"
| "cppLayoutOf (Bytes len) =
     (case assertPositiveInt len of
        Inl e \<Rightarrow> Inl e
      | Inr n \<Rightarrow> Inr \<lparr>size_of = n, align_of = Finite 1\<rparr>)"
| "cppLayoutOf M256i = Inr \<lparr>size_of = Finite 32, align_of = Finite 8\<rparr>"
| "cppLayoutOf (Array len item) =
     (case assertPositiveInt len of
        Inl e \<Rightarrow> Inl e
      | Inr n \<Rightarrow>
          (case cppLayoutOf item of
             Inl e \<Rightarrow> Inl e
           | Inr il \<Rightarrow> Inr \<lparr>size_of = jsMul (size_of il) n, align_of = align_of il\<rparr>))"
| "cppLayoutOf (Struct flds) =
     (case layoutFields flds (Finite 0) (Finite 1) of
        Inl e \<Rightarrow> Inl e
      | Inr (offset, structAlign) \<Rightarrow>
          (let sz = alignUp offset structAlign
           in Inr \<lparr>size_of = (if sz = Finite 0 then Finite 1 else sz), align_of = structAlign\<rparr>))"
| "layoutFields [] offset structAlign = Inr (offset, structAlign)"
| "layoutFields ((name, typeRef) # rest) offset structAlign =
     (case cppLayoutOf typeRef of
        Inl e \<Rightarrow> Inl e
      | Inr fieldLayout \<Rightarrow>
          layoutFields rest
            (jsAdd (alignUp offset (align_of fieldLayout)) (size_of fieldLayout))
            (jsMax structAlign (align_of fieldLayout)))"

subsection \<open>Well-formed type references\<close>

text \<open>A length is well-formed when it is a non-negative integer.\<close>

definition uintLength :: "number \<Rightarrow> bool" where
  "uintLength v = (case v of Finite r \<Rightarrow> 0 \<le> r \<and> of_int \<lfloor>r\<rfloor> = r | _ \<Rightarrow> False)"

fun wellFormed :: "QbiTypeRef \<Rightarrow> bool"
  and wellFormedFields :: "(jsString \<times> QbiTypeRef) list \<Rightarrow> bool"
where
  "wellFormed (NoData _) = True"
| "wellFormed (Prim _) = True"
| "wellFormed (Bytes len) = uintLength len"
| "wellFormed M256i = True"
| "wellFormed (Array len item) = (uintLength len \<and> wellFormed item)"
| "wellFormed (Struct flds) = wellFormedFields flds"
| "wellFormedFields [] = True"
| "wellFormedFields ((name, typeRef) # rest) = (wellFormed typeRef \<and> wellFormedFields rest)"

text \<open>Rounding up to a multiple of the alignment, as arithmetic on integers.\<close>

definition roundUp :: "int \<Rightarrow> int \<Rightarrow> int" where
  "roundUp v a = ((v + a - 1) div a) * a"

definition goodAlign :: "int \<Rightarrow> bool" where
  "goodAlign a = (a = 1 \<or> a = 2 \<or> a = 4 \<or> a = 8)"


text \<open>A length the layout calculator must refuse: negative, or not an integer (\<open>NaN\<close> and
  the infinities are not integers). A type reference contains a bad length when one stands
  anywhere in it.\<close>

definition negativeOrNotInteger :: "number \<Rightarrow> bool" where
  "negativeOrNotInteger v = (case v of Finite r \<Rightarrow> r < 0 \<or> of_int \<lfloor>r\<rfloor> \<noteq> r | _ \<Rightarrow> True)"

fun hasBadLength :: "QbiTypeRef \<Rightarrow> bool"
  and hasBadLengthFields :: "(jsString \<times> QbiTypeRef) list \<Rightarrow> bool"
where
  "hasBadLength (NoData _) = False"
| "hasBadLength (Prim _) = False"
| "hasBadLength (Bytes len) = negativeOrNotInteger len"
| "hasBadLength M256i = False"
| "hasBadLength (Array len item) = (negativeOrNotInteger len \<or> hasBadLength item)"
| "hasBadLength (Struct flds) = hasBadLengthFields flds"
| "hasBadLengthFields [] = False"
| "hasBadLengthFields ((name, typeRef) # rest) = (hasBadLength typeRef \<or> hasBadLengthFields rest)"



subsection \<open>The layout in exact integer arithmetic\<close>

text \<open>
  \<open>exactLayout\<close> is the layout computed with integers, size and alignment. It is defined
  when every length is a non-negative integer, every \<open>expectedSize\<close> that is present is an
  integer, and every size and every offset met on the way is at most \<open>2^53\<close>, the range in
  which binary64 holds every integer.
\<close>

definition safeInt :: "int \<Rightarrow> int option" where
  "safeInt n = (if 0 \<le> n \<and> n \<le> 2 ^ 53 then Some n else None)"

definition primSize :: "prim \<Rightarrow> int" where
  "primSize p =
     (case p of Bool \<Rightarrow> 1 | U8 \<Rightarrow> 1 | I8 \<Rightarrow> 1 | U16 \<Rightarrow> 2 | I16 \<Rightarrow> 2 | U32 \<Rightarrow> 4 | I32 \<Rightarrow> 4
      | U64 \<Rightarrow> 8 | I64 \<Rightarrow> 8)"

fun exactLayout :: "QbiTypeRef \<Rightarrow> (int \<times> int) option"
  and exactFields :: "(jsString \<times> QbiTypeRef) list \<Rightarrow> int \<Rightarrow> int \<Rightarrow> (int \<times> int) option"
where
  "exactLayout (NoData expectedSize) =
     (case expectedSize of
        None \<Rightarrow> Some (1, 1)
      | Some (Finite r) \<Rightarrow>
          (if of_int \<lfloor>r\<rfloor> = r then map_option (\<lambda>n. (n, 1)) (safeInt (max 1 \<lfloor>r\<rfloor>)) else None)
      | Some _ \<Rightarrow> None)"
| "exactLayout (Prim p) = Some (primSize p, primSize p)"
| "exactLayout (Bytes len) =
     (case len of
        Finite r \<Rightarrow> (if uintLength len then map_option (\<lambda>n. (n, 1)) (safeInt \<lfloor>r\<rfloor>) else None)
      | _ \<Rightarrow> None)"
| "exactLayout M256i = Some (32, 8)"
| "exactLayout (Array len item) =
     (case len of
        Finite r \<Rightarrow>
          (if uintLength len then
             (case exactLayout item of
                None \<Rightarrow> None
              | Some (s, a) \<Rightarrow> map_option (\<lambda>n. (n, a)) (safeInt (s * \<lfloor>r\<rfloor>)))
           else None)
      | _ \<Rightarrow> None)"
| "exactLayout (Struct flds) =
     (case exactFields flds 0 1 of
        None \<Rightarrow> None
      | Some (offset, structAlign) \<Rightarrow>
          map_option (\<lambda>n. (if n = 0 then 1 else n, structAlign))
            (safeInt (roundUp offset structAlign)))"
| "exactFields [] offset structAlign = Some (offset, structAlign)"
| "exactFields ((name, typeRef) # rest) offset structAlign =
     (case exactLayout typeRef of
        None \<Rightarrow> None
      | Some (s, a) \<Rightarrow>
          (case safeInt (roundUp offset a) of
             None \<Rightarrow> None
           | Some placed \<Rightarrow>
               (case safeInt (placed + s) of
                  None \<Rightarrow> None
                | Some next \<Rightarrow> exactFields rest next (max structAlign a))))"

definition goodAlignNumber :: "number \<Rightarrow> bool" where
  "goodAlignNumber a = (a = Finite 1 \<or> a = Finite 2 \<or> a = Finite 4 \<or> a = Finite 8)"

subsection \<open>The layout rule for structs in the words of the specification\<close>

text \<open>
  Rounding an offset up to an alignment: the least multiple of the alignment that is not
  below the offset. An alignment of 1 asks for nothing, and an offset that is \<open>NaN\<close> or
  infinite stays as it is.
\<close>

definition roundUpTo :: "number \<Rightarrow> number \<Rightarrow> number" where
  "roundUpTo v a =
     (case (v, a) of
        (Finite r, Finite q) \<Rightarrow> (if q \<le> 1 then v else Finite (of_int \<lceil>r / q\<rceil> * q))
      | _ \<Rightarrow> v)"






section \<open>Properties of binary64 rounding\<close>










section \<open>Properties of the layout calculator\<close>





lemma goodAlign_pos: "goodAlign a \<Longrightarrow> 0 < a"
  by (auto simp: goodAlign_def)







lemma assertPositiveInt_ok:
  "uintLength v \<Longrightarrow> assertPositiveInt v = Inr v"
  by (cases v) (auto simp: uintLength_def assertPositiveInt_def isFinite_def isInteger_def
      lessZero_def)

lemma assertPositiveInt_bad:
  "\<not> uintLength v \<Longrightarrow> assertPositiveInt v = Inl RangeError"
  by (cases v) (auto simp: uintLength_def assertPositiveInt_def isFinite_def isInteger_def
      lessZero_def)

lemma goodAlignNumber_max:
  "goodAlignNumber a \<Longrightarrow> goodAlignNumber b \<Longrightarrow> goodAlignNumber (jsMax a b)"
  by (auto simp: goodAlignNumber_def jsMax_def jsLe_def)

lemma primLayout_good: "goodAlignNumber (align_of (primLayout p))"
  by (cases p) (simp_all add: primLayout_def goodAlignNumber_def)

lemma layout_total:
  "wellFormed t \<Longrightarrow> \<exists>l. cppLayoutOf t = Inr l \<and> goodAlignNumber (align_of l)"
  "wellFormedFields fs \<Longrightarrow> goodAlignNumber al \<Longrightarrow>
     \<exists>off' al'. layoutFields fs off al = Inr (off', al') \<and> goodAlignNumber al'"
proof (induction t and fs off al rule: cppLayoutOf_layoutFields.induct)
  case (1 expectedSize)
  then show ?case by (simp add: goodAlignNumber_def)
next
  case (2 p)
  then show ?case using primLayout_good [of p] by simp
next
  case (3 len)
  then show ?case using assertPositiveInt_ok [of len] by (simp add: goodAlignNumber_def)
next
  case 4
  then show ?case by (simp add: goodAlignNumber_def)
next
  case (5 len item)
  then have n: "assertPositiveInt len = Inr len" using assertPositiveInt_ok [of len] by simp
  from 5 n obtain il where il: "cppLayoutOf item = Inr il" "goodAlignNumber (align_of il)"
    by auto
  show ?case using n il by simp
next
  case (6 flds)
  then have "wellFormedFields flds" by simp
  from "6.IH" [OF this] obtain off' al' where
    r: "layoutFields flds (Finite 0) (Finite 1) = Inr (off', al')" "goodAlignNumber al'"
    by (auto simp: goodAlignNumber_def)
  then show ?case by (simp add: Let_def)
next
  case (7 offset structAlign)
  then show ?case by simp
next
  case (8 name typeRef rest offset structAlign)
  from 8 obtain fl where fl: "cppLayoutOf typeRef = Inr fl" "goodAlignNumber (align_of fl)"
    by auto
  have b: "goodAlignNumber (jsMax structAlign (align_of fl))"
    using "8.prems"(2) fl(2) by (rule goodAlignNumber_max)
  have w: "wellFormedFields rest" using "8.prems"(1) by simp
  show ?case using "8.IH"(2) [OF fl(1) w b] fl(1) by simp
qed

lemma layout_raises:
  "\<not> wellFormed t \<Longrightarrow> cppLayoutOf t = Inl RangeError"
  "\<not> wellFormedFields fs \<Longrightarrow> layoutFields fs off al = Inl RangeError"
proof (induction t and fs off al rule: cppLayoutOf_layoutFields.induct)
  case (3 len)
  then show ?case using assertPositiveInt_bad [of len] by simp
next
  case (5 len item)
  show ?case
  proof (cases "uintLength len")
    case True
    then have n: "assertPositiveInt len = Inr len" by (rule assertPositiveInt_ok)
    from True "5.prems" have "\<not> wellFormed item" by simp
    with "5.IH" n show ?thesis by simp
  next
    case False
    then show ?thesis using assertPositiveInt_bad [of len] by simp
  qed
next
  case (8 name typeRef rest offset structAlign)
  show ?case
  proof (cases "cppLayoutOf typeRef")
    case (Inl e)
    then show ?thesis by (cases e) simp
  next
    case (Inr fl)
    then have "wellFormed typeRef" using "8.IH"(1) by auto
    with "8.prems" have "\<not> wellFormedFields rest" by simp
    with "8.IH"(2) [OF Inr] Inr show ?thesis by simp
  qed
qed simp_all

lemma hasBadLength_wellFormed:
  "hasBadLength t = (\<not> wellFormed t)"
  "hasBadLengthFields fs = (\<not> wellFormedFields fs)"
proof (induction t and fs rule: hasBadLength_hasBadLengthFields.induct)
  case (3 len)
  then show ?case
    by (cases len) (auto simp: negativeOrNotInteger_def uintLength_def)
next
  case (5 len item)
  then show ?case
    by (cases len) (auto simp: negativeOrNotInteger_def uintLength_def)
qed simp_all





lemma exactLayout_wellFormed:
  "exactLayout t = Some x \<Longrightarrow> wellFormed t"
  "exactFields fs off al0 = Some y \<Longrightarrow> wellFormedFields fs"
proof (induction t and fs off al0 arbitrary: x and y rule: exactLayout_exactFields.induct)
  case (3 len)
  then show ?case by (cases len) (auto split: if_splits)
next
  case (5 len item)
  then show ?case by (cases len) (auto split: if_splits option.splits)
next
  case (6 flds)
  then show ?case by (auto split: option.splits)
next
  case (8 name typeRef rest offset structAlign)
  from "8.prems" obtain s a placed nxt where
    e: "exactLayout typeRef = Some (s, a)" and
    p: "safeInt (roundUp offset a) = Some placed" and
    n: "safeInt (placed + s) = Some nxt" and
    r: "exactFields rest nxt (max structAlign a) = Some y"
    by (auto split: option.splits)
  from "8.IH"(1) [OF e] "8.IH"(2) [OF e refl p n r] show ?case by simp
qed simp_all















lemma roundUpTo_least:
  assumes "1 < q" "roundUpTo (Finite r) (Finite q) = Finite s"
  shows "(\<exists>n. s = of_int n * q) \<and> r \<le> s \<and> s < r + q"
proof -
  let ?c = "\<lceil>r / q\<rceil>"
  from assms have s: "s = of_int ?c * q" by (simp add: roundUpTo_def)
  have q: "0 < q" using assms(1) by simp
  have "r / q \<le> of_int ?c" by (rule le_of_int_ceiling)
  then have 1: "r \<le> of_int ?c * q" using pos_divide_le_eq [OF q, of r "of_int ?c"] by blast
  have "of_int ?c < r / q + 1" using ceiling_correct [of "r / q"] by linarith
  then have "of_int ?c * q < (r / q + 1) * q" using q by (simp only: mult_less_cancel_right_pos)
  also have "\<dots> = r + q" using q by (simp add: field_simps)
  finally have 2: "of_int ?c * q < r + q" .
  from s 1 2 show ?thesis by blast
qed



text \<open>
  \<^bold>\<open>C8.\<close> \<open>cppLayoutOf\<close> raises \<open>RangeError\<close> exactly when the type reference contains a
  \<open>bytes\<close> or \<open>array\<close> length that is negative or not an integer; for every other type
  reference it returns a layout.
\<close>

theorem cppLayoutOf_raises_iff:
  "(cppLayoutOf t = Inl RangeError) = hasBadLength t \<and>
   (\<exists>l. cppLayoutOf t = Inr l) = (\<not> hasBadLength t)"
proof (cases "wellFormed t")
  case True
  then show ?thesis
    using layout_total(1) [of t] by (auto simp: hasBadLength_wellFormed)
next
  case False
  then show ?thesis
    using layout_raises(1) [of t] by (auto simp: hasBadLength_wellFormed)
qed

theorem cppLayoutOf_raises_iff_witness:
  "hasBadLength (Struct [(str ''n'', Array (Finite (5 / 2)) (Prim U8))]) \<and>
   cppLayoutOf (Struct [(str ''n'', Array (Finite (5 / 2)) (Prim U8))]) = Inl RangeError \<and>
   hasBadLength (Bytes (Finite (- 1))) \<and>
   cppLayoutOf (Bytes (Finite (- 1))) = Inl RangeError \<and>
   \<not> hasBadLength (Array (Finite 0) (Bytes (Finite 7))) \<and>
   (\<exists>l. cppLayoutOf (Array (Finite 0) (Bytes (Finite 7))) = Inr l)"
proof -
  have 1: "hasBadLength (Struct [(str ''n'', Array (Finite (5 / 2)) (Prim U8))])" by code_simp
  have 2: "hasBadLength (Bytes (Finite (- 1)))" by code_simp
  have 3: "\<not> hasBadLength (Array (Finite 0) (Bytes (Finite 7)))" by code_simp
  show ?thesis
    using 1 2 3
      cppLayoutOf_raises_iff [of "Struct [(str ''n'', Array (Finite (5 / 2)) (Prim U8))]"]
      cppLayoutOf_raises_iff [of "Bytes (Finite (- 1))"]
      cppLayoutOf_raises_iff [of "Array (Finite 0) (Bytes (Finite 7))"]
    by blast
qed




end
